theory Spec2Isabelle
  imports Main "HOL-Library.Word"
begin

unbundle bit_operations_syntax

section \<open>Bytes and pointers\<close>

text \<open>
  The emulator (package eatersim, file eatersim.go) is a set of boards: Go structs whose
  Exec method is called once per tick. A board keeps its own state in plain fields and
  reads its inputs (clock, control signals, operands, the bus) through pointers that the
  constructor stores.

  The embedding keeps, for every board, a record of the plain fields, and passes what the
  pointers point to as arguments of Exec, in the order of the constructor's parameters.
  A pointer argument is an option: \<open>None\<close> is the nil pointer, \<open>Some v\<close> is a pointer to a
  cell that holds \<open>v\<close> when Exec runs. A board that may write the bus returns the content
  of the bus cell after Exec beside its new state.
\<close>

type_synonym byte = "8 word"

text \<open>ptbool: interprets nil-pointers as false, else the value pointed to.\<close>

definition ptbool :: "bool option \<Rightarrow> bool" where
  "ptbool p = (case p of Some b \<Rightarrow> b | None \<Rightarrow> False)"

text \<open>ptbyte: interprets nil-pointers as 0x00, else the value pointed to.\<close>

definition ptbyte :: "byte option \<Rightarrow> byte" where
  "ptbyte p = (case p of Some b \<Rightarrow> b | None \<Rightarrow> 0)"

section \<open>The clock board\<close>

record Clk =
  CLK :: bool

text \<open>Clk.Exec; the argument is the pointer HLT.\<close>

definition Clk_Exec :: "bool option \<Rightarrow> Clk \<Rightarrow> Clk" where
  "Clk_Exec hlt c =
     (if \<not> ptbool hlt then c\<lparr>CLK := \<not> CLK c\<rparr> else c\<lparr>CLK := False\<rparr>)"

section \<open>The register boards\<close>

text \<open>Reg: the generic 8-bit register (A, B and output register).\<close>

record Reg =
  Reg_BUF :: byte
  Reg_clkprev :: bool
  Reg_clkre :: bool

text \<open>Reg.Exec; the arguments are the pointers BUS, CLK, CLR, EI, EO.\<close>

definition Reg_Exec ::
  "byte option \<Rightarrow> bool option \<Rightarrow> bool option \<Rightarrow> bool option \<Rightarrow> bool option \<Rightarrow> Reg
     \<Rightarrow> Reg \<times> byte option" where
  "Reg_Exec bus clk clr ei eo r =
     (let r1 = r\<lparr>Reg_clkre := (ptbool clk \<and> \<not> Reg_clkprev r)\<rparr>;
          r2 = r1\<lparr>Reg_clkprev := ptbool clk\<rparr>;
          r3 = (if ptbool ei \<and> Reg_clkre r2 then r2\<lparr>Reg_BUF := ptbyte bus\<rparr> else r2);
          r4 = (if ptbool clr then r3\<lparr>Reg_BUF := 0\<rparr> else r3)
      in (r4, if ptbool eo \<and> bus \<noteq> None then Some (Reg_BUF r4) else bus))"

text \<open>Ireg: the instruction register; it drives only its low nibble onto the bus.\<close>

record Ireg =
  Ireg_BUF :: byte
  Ireg_clkprev :: bool
  Ireg_clkre :: bool

text \<open>Ireg.Exec; the arguments are the pointers BUS, CLK, CLR, EI, EO.\<close>

definition Ireg_Exec ::
  "byte option \<Rightarrow> bool option \<Rightarrow> bool option \<Rightarrow> bool option \<Rightarrow> bool option \<Rightarrow> Ireg
     \<Rightarrow> Ireg \<times> byte option" where
  "Ireg_Exec bus clk clr ei eo r =
     (let r1 = r\<lparr>Ireg_clkre := (ptbool clk \<and> \<not> Ireg_clkprev r)\<rparr>;
          r2 = r1\<lparr>Ireg_clkprev := ptbool clk\<rparr>;
          r3 = (if ptbool ei \<and> Ireg_clkre r2 then r2\<lparr>Ireg_BUF := ptbyte bus\<rparr> else r2);
          r4 = (if ptbool clr then r3\<lparr>Ireg_BUF := 0\<rparr> else r3)
      in (r4, if ptbool eo \<and> bus \<noteq> None then Some (Ireg_BUF r4 AND 0x0f) else bus))"

text \<open>Reg4: the 4-bit memory address register; it never writes the bus.\<close>

record Reg4 =
  Reg4_BUF :: byte
  Reg4_clkprev :: bool
  Reg4_clkre :: bool

text \<open>Reg4.Exec; the arguments are the pointers BUS, CLK, CLR, EI.\<close>

definition Reg4_Exec ::
  "byte option \<Rightarrow> bool option \<Rightarrow> bool option \<Rightarrow> bool option \<Rightarrow> Reg4 \<Rightarrow> Reg4" where
  "Reg4_Exec bus clk clr ei r =
     (let r1 = r\<lparr>Reg4_clkre := (ptbool clk \<and> \<not> Reg4_clkprev r)\<rparr>;
          r2 = r1\<lparr>Reg4_clkprev := ptbool clk\<rparr>;
          r3 = (if ptbool ei \<and> Reg4_clkre r2
                then r2\<lparr>Reg4_BUF := ptbyte bus AND 0x0f\<rparr> else r2);
          r4 = (if ptbool clr then r3\<lparr>Reg4_BUF := 0\<rparr> else r3)
      in r4)"

section \<open>The memory board\<close>

text \<open>
  MEM is the Go array of 16 bytes, kept as a list; every index the code uses is below 16
  (an address masked with 0x0f, or the loop counter of Write, which stops at 16 at most).
\<close>

record Mem =
  MEM :: "byte list"
  Mem_clkprev :: bool
  Mem_clkre :: bool

text \<open>Mem.Exec; the arguments are the pointers Addr, BUS, CLK, RI, RO.\<close>

definition Mem_Exec ::
  "byte option \<Rightarrow> byte option \<Rightarrow> bool option \<Rightarrow> bool option \<Rightarrow> bool option \<Rightarrow> Mem
     \<Rightarrow> Mem \<times> byte option" where
  "Mem_Exec addr bus clk ri ro m =
     (let m1 = m\<lparr>Mem_clkre := (ptbool clk \<and> \<not> Mem_clkprev m)\<rparr>;
          m2 = m1\<lparr>Mem_clkprev := ptbool clk\<rparr>;
          m3 = (if ptbool ri \<and> Mem_clkre m2
                then m2\<lparr>MEM := (MEM m2)[unat (ptbyte addr AND 0x0f) := ptbyte bus]\<rparr>
                else m2)
      in (m3, if ptbool ro \<and> bus \<noteq> None
              then Some (MEM m3 ! unat (ptbyte addr AND 0x0f)) else bus))"

text \<open>The loop of Mem.Write: for i := 0; i < n; i++ { m.MEM[i] = p[i] }.\<close>

function Write_loop :: "nat \<Rightarrow> nat \<Rightarrow> byte list \<Rightarrow> byte list \<Rightarrow> byte list" where
  "Write_loop i n p mem = (if i < n then Write_loop (i + 1) n p (mem[i := p ! i]) else mem)"
  by pat_completeness auto
termination
  by (relation "measure (\<lambda>(i, n, p, mem). n - i)") auto

declare Write_loop.simps [simp del]

text \<open>
  Mem.Write returns the number of bytes written and an error; the model returns the new
  board as well. The error is nil (\<open>None\<close>) or carries the message of errors.New.
\<close>

definition Mem_Write :: "byte list \<Rightarrow> Mem \<Rightarrow> Mem \<times> nat \<times> string option" where
  "Mem_Write p m =
     (let n0 = length p;
          (n, err) = (if n0 > 0x10 then (0x10, Some ''buffer larger than memory'')
                      else (n0, None))
      in (m\<lparr>MEM := Write_loop 0 n p (MEM m)\<rparr>, n, err))"

section \<open>The arithmetic logic unit\<close>

record Alu =
  Alu_BUF :: byte
  CF :: bool
  ZF :: bool
  Alu_clkprev :: bool
  Alu_clkre :: bool
  bufCF :: bool
  bufZF :: bool

text \<open>Alu.Exec; the arguments are the pointers Areg, Breg, BUS, CLK, CLR, EO, SU, FI.\<close>

definition Alu_Exec ::
  "byte option \<Rightarrow> byte option \<Rightarrow> byte option \<Rightarrow> bool option \<Rightarrow> bool option \<Rightarrow> bool option
     \<Rightarrow> bool option \<Rightarrow> bool option \<Rightarrow> Alu \<Rightarrow> Alu \<times> byte option" where
  "Alu_Exec areg breg bus clk clr eo su fi a =
     (let a1 = a\<lparr>Alu_clkre := (ptbool clk \<and> \<not> Alu_clkprev a)\<rparr>;
          a2 = a1\<lparr>Alu_clkprev := ptbool clk\<rparr>;
          a3 = (if ptbool fi \<and> Alu_clkre a2 then a2\<lparr>CF := bufCF a2, ZF := bufZF a2\<rparr> else a2);
          a4 = (if ptbool clr then a3\<lparr>CF := False, ZF := False\<rparr> else a3);
          a5 = (if \<not> ptbool su
                then (let b1 = a4\<lparr>Alu_BUF := ptbyte areg + ptbyte breg\<rparr>;
                          b2 = b1\<lparr>bufCF := (0xff < uint (ptbyte areg) + uint (ptbyte breg))\<rparr>
                      in b2\<lparr>bufZF := (Alu_BUF b2 = 0)\<rparr>)
                else (let b1 = a4\<lparr>Alu_BUF := ptbyte areg - ptbyte breg\<rparr>;
                          b2 = b1\<lparr>bufCF := (ptbyte areg < ptbyte breg)\<rparr>
                      in b2\<lparr>bufZF := (Alu_BUF b2 = 0)\<rparr>))
      in (a5, if ptbool eo \<and> bus \<noteq> None then Some (Alu_BUF a5) else bus))"

section \<open>The program counter\<close>

record Ctr =
  CNT :: byte
  Ctr_clkprev :: bool
  Ctr_clkre :: bool

text \<open>Ctr.Exec; the arguments are the pointers BUS, CLK, CLR, CO, J, CE.\<close>

definition Ctr_Exec ::
  "byte option \<Rightarrow> bool option \<Rightarrow> bool option \<Rightarrow> bool option \<Rightarrow> bool option \<Rightarrow> bool option
     \<Rightarrow> Ctr \<Rightarrow> Ctr \<times> byte option" where
  "Ctr_Exec bus clk clr co j ce c =
     (let c1 = c\<lparr>Ctr_clkre := (ptbool clk \<and> \<not> Ctr_clkprev c)\<rparr>;
          c2 = c1\<lparr>Ctr_clkprev := ptbool clk\<rparr>;
          c3 = (if ptbool ce \<and> Ctr_clkre c2 then c2\<lparr>CNT := (CNT c2 + 1) AND 0x0f\<rparr> else c2);
          c4 = (if ptbool j \<and> Ctr_clkre c3 then c3\<lparr>CNT := ptbyte bus AND 0x0f\<rparr> else c3);
          c5 = (if ptbool clr then c4\<lparr>CNT := 0\<rparr> else c4)
      in (c5, if ptbool co \<and> bus \<noteq> None then Some (CNT c5 AND 0x0f) else bus))"

section \<open>The control logic board\<close>

text \<open>
  Ctrl holds the micro instruction counter Cnt, the general control flags CLR and HLT,
  the fifteen control flags read by the other boards, and the helper states. It reads the
  instruction, the clock and the two status flags through pointers.
\<close>

record Ctrl =
  Cnt :: byte
  CLR :: bool
  HLT :: bool
  AI :: bool
  AO :: bool
  BI :: bool
  OI :: bool
  MI :: bool
  II :: bool
  IO :: bool
  EO :: bool
  SU :: bool
  FI :: bool
  CO :: bool
  J :: bool
  CE :: bool
  RI :: bool
  RO :: bool
  Ctrl_clkprev :: bool
  clkfe :: bool
  clrrst :: int

definition resetFlags :: "Ctrl \<Rightarrow> Ctrl" where
  "resetFlags c =
     c\<lparr>AI := False, AO := False, BI := False, OI := False, MI := False,
       II := False, IO := False, EO := False, SU := False, FI := False,
       CO := False, J := False, CE := False, RI := False, RO := False\<rparr>"

text \<open>
  The switch on c.Cnt that ends Ctrl.Exec, with the nested switch on the instruction's
  high nibble; \<open>inst\<close>, \<open>cf\<close> and \<open>zf\<close> are the values read through the pointers.
\<close>

definition Ctrl_switch :: "byte \<Rightarrow> bool \<Rightarrow> bool \<Rightarrow> Ctrl \<Rightarrow> Ctrl" where
  "Ctrl_switch inst cf zf c =
     (if Cnt c = 0 then c\<lparr>CO := True, MI := True\<rparr>
      else if Cnt c = 1 then c\<lparr>RO := True, II := True, CE := True\<rparr>
      else
        (let op = drop_bit 4 inst in
         if op = 0x0 then c
         else if op = 0x1 then
           (if Cnt c = 2 then c\<lparr>IO := True, MI := True\<rparr>
            else if Cnt c = 3 then c\<lparr>RO := True, AI := True\<rparr>
            else c)
         else if op = 0x2 then
           (if Cnt c = 2 then c\<lparr>IO := True, MI := True\<rparr>
            else if Cnt c = 3 then c\<lparr>RO := True, BI := True\<rparr>
            else if Cnt c = 4 then c\<lparr>EO := True, AI := True, FI := True\<rparr>
            else c)
         else if op = 0x3 then
           (if Cnt c = 2 then c\<lparr>IO := True, MI := True\<rparr>
            else if Cnt c = 3 then c\<lparr>RO := True, BI := True\<rparr>
            else if Cnt c = 4 then c\<lparr>EO := True, AI := True, SU := True, FI := True\<rparr>
            else c)
         else if op = 0x4 then
           (if Cnt c = 2 then c\<lparr>IO := True, MI := True\<rparr>
            else if Cnt c = 3 then c\<lparr>AO := True, RI := True\<rparr>
            else c)
         else if op = 0x5 then
           (if Cnt c = 2 then c\<lparr>IO := True, AI := True\<rparr> else c)
         else if op = 0x6 then
           (if Cnt c = 2 then c\<lparr>IO := True, J := True\<rparr> else c)
         else if op = 0x7 then
           (if Cnt c = 2 then (if cf then c\<lparr>IO := True, J := True\<rparr> else c) else c)
         else if op = 0x8 then
           (if Cnt c = 2 then (if zf then c\<lparr>IO := True, J := True\<rparr> else c) else c)
         else if op = 0xe then
           (if Cnt c = 2 then c\<lparr>AO := True, OI := True\<rparr> else c)
         else if op = 0xf then
           (if Cnt c = 2 then c\<lparr>HLT := True\<rparr> else c)
         else c))"

text \<open>Ctrl.Exec; the arguments are the pointers Inst, CLK, CF, ZF.\<close>

definition Ctrl_Exec ::
  "byte option \<Rightarrow> bool option \<Rightarrow> bool option \<Rightarrow> bool option \<Rightarrow> Ctrl \<Rightarrow> Ctrl" where
  "Ctrl_Exec inst clk cf zf c =
     (let c1 = c\<lparr>clkfe := (\<not> ptbool clk \<and> Ctrl_clkprev c)\<rparr>;
          c2 = c1\<lparr>Ctrl_clkprev := ptbool clk\<rparr>;
          c3 = (if clkfe c2 then c2\<lparr>Cnt := Cnt c2 + 1\<rparr> else c2);
          c4 = (if Cnt c3 = 5 then c3\<lparr>Cnt := 0\<rparr> else c3);
          c5 = resetFlags c4
      in if CLR c5 then
           (let c6 = c5\<lparr>Cnt := 0, HLT := False\<rparr>;
                c7 = (if clrrst c6 = 1 then c6\<lparr>CLR := False, clrrst := 0\<rparr> else c6);
                c8 = (if clrrst c7 > 0 then c7\<lparr>clrrst := clrrst c7 - 1\<rparr> else c7)
            in c8)
         else Ctrl_switch (ptbyte inst) (ptbool cf) (ptbool zf) c5)"

text \<open>Ctrl.Reset.\<close>

definition Ctrl_Reset :: "Ctrl \<Rightarrow> Ctrl" where
  "Ctrl_Reset c = c\<lparr>CLR := True, clrrst := 2\<rparr>"

section \<open>The complete breadboard CPU\<close>

text \<open>
  BBCpu owns the boards and the bus. NewBBCpu wires every pointer once: the clock reads
  CL.HLT; every board reads CLK.CLK, CL.CLR and its own control flags of CL; the B and the
  output register get nil for EO; the ALU reads Areg.BUF and Breg.BUF; the memory reads
  MAR.BUF; the control logic reads IR.BUF, ALU.CF and ALU.ZF; all boards share BUS.
\<close>

record BBCpu =
  cpu_CLK :: Clk
  cpu_CL :: Ctrl
  cpu_Areg :: Reg
  cpu_Breg :: Reg
  cpu_Oreg :: Reg
  cpu_MAR :: Reg4
  cpu_IR :: Ireg
  cpu_ALU :: Alu
  cpu_PC :: Ctr
  cpu_RAM :: Mem
  cpu_BUS :: byte

text \<open>
  BBCpu.Exec runs the boards in the order of the source. Each board is given what its
  pointers point to at the moment it runs: a board that runs later in the tick sees the
  fields that earlier boards have already written.
\<close>

definition BBCpu_Exec :: "BBCpu \<Rightarrow> BBCpu" where
  "BBCpu_Exec c =
     (let clk = Clk_Exec (Some (HLT (cpu_CL c))) (cpu_CLK c);
          k = Some (CLK clk);
          cl = Ctrl_Exec (Some (Ireg_BUF (cpu_IR c))) k
                 (Some (CF (cpu_ALU c))) (Some (ZF (cpu_ALU c))) (cpu_CL c);
          r = Some (CLR cl);
          (areg, bus1) = Reg_Exec (Some (cpu_BUS c)) k r (Some (AI cl)) (Some (AO cl)) (cpu_Areg c);
          (breg, bus2) = Reg_Exec bus1 k r (Some (BI cl)) None (cpu_Breg c);
          (oreg, bus3) = Reg_Exec bus2 k r (Some (OI cl)) None (cpu_Oreg c);
          (alu, bus4) = Alu_Exec (Some (Reg_BUF areg)) (Some (Reg_BUF breg)) bus3 k r
                          (Some (EO cl)) (Some (SU cl)) (Some (FI cl)) (cpu_ALU c);
          mar = Reg4_Exec bus4 k r (Some (MI cl)) (cpu_MAR c);
          (ram, bus5) = Mem_Exec (Some (Reg4_BUF mar)) bus4 k (Some (RI cl)) (Some (RO cl))
                          (cpu_RAM c);
          (pc, bus6) = Ctr_Exec bus5 k r (Some (CO cl)) (Some (J cl)) (Some (CE cl)) (cpu_PC c);
          (ir, bus7) = Ireg_Exec bus6 k r (Some (II cl)) (Some (IO cl)) (cpu_IR c)
      in \<lparr>cpu_CLK = clk, cpu_CL = cl, cpu_Areg = areg, cpu_Breg = breg, cpu_Oreg = oreg,
          cpu_MAR = mar, cpu_IR = ir, cpu_ALU = alu, cpu_PC = pc, cpu_RAM = ram,
          cpu_BUS = ptbyte bus7\<rparr>)"

text \<open>BBCpu.Reset: CL.Reset, then Exec twice.\<close>

definition BBCpu_Reset :: "BBCpu \<Rightarrow> BBCpu" where
  "BBCpu_Reset c = BBCpu_Exec (BBCpu_Exec (c\<lparr>cpu_CL := Ctrl_Reset (cpu_CL c)\<rparr>))"

text \<open>
  BBCpu.Instruction: Exec once, then Exec again until the micro instruction counter is 4
  while the clock is high. The loop has no bound, so it is a partial function: \<open>None\<close>
  is the run that never leaves the loop.
\<close>

partial_function (option) Instruction_loop :: "BBCpu \<Rightarrow> BBCpu option" where
  "Instruction_loop c =
     (if \<not> (Cnt (cpu_CL c) = 4 \<and> CLK (cpu_CLK c)) then Instruction_loop (BBCpu_Exec c)
      else Some c)"

definition BBCpu_Instruction :: "BBCpu \<Rightarrow> BBCpu option" where
  "BBCpu_Instruction c = Instruction_loop (BBCpu_Exec c)"

section \<open>The boards as the constructors leave them\<close>

text \<open>
  Every constructor allocates with new, so all plain fields start at their zero value;
  the memory starts as sixteen zero bytes.
\<close>

definition NewClk :: Clk where
  "NewClk = \<lparr>CLK = False\<rparr>"

definition NewReg :: Reg where
  "NewReg = \<lparr>Reg_BUF = 0, Reg_clkprev = False, Reg_clkre = False\<rparr>"

definition NewIreg :: Ireg where
  "NewIreg = \<lparr>Ireg_BUF = 0, Ireg_clkprev = False, Ireg_clkre = False\<rparr>"

definition NewReg4 :: Reg4 where
  "NewReg4 = \<lparr>Reg4_BUF = 0, Reg4_clkprev = False, Reg4_clkre = False\<rparr>"

definition NewMem :: Mem where
  "NewMem = \<lparr>MEM = replicate 16 0, Mem_clkprev = False, Mem_clkre = False\<rparr>"

definition NewAlu :: Alu where
  "NewAlu = \<lparr>Alu_BUF = 0, CF = False, ZF = False, Alu_clkprev = False, Alu_clkre = False,
              bufCF = False, bufZF = False\<rparr>"

definition NewCtr :: Ctr where
  "NewCtr = \<lparr>CNT = 0, Ctr_clkprev = False, Ctr_clkre = False\<rparr>"

definition NewCtrl :: Ctrl where
  "NewCtrl = \<lparr>Cnt = 0, CLR = False, HLT = False, AI = False, AO = False, BI = False,
               OI = False, MI = False, II = False, IO = False, EO = False, SU = False,
               FI = False, CO = False, J = False, CE = False, RI = False, RO = False,
               Ctrl_clkprev = False, clkfe = False, clrrst = 0\<rparr>"

definition NewBBCpu :: BBCpu where
  "NewBBCpu = \<lparr>cpu_CLK = NewClk, cpu_CL = NewCtrl, cpu_Areg = NewReg, cpu_Breg = NewReg,
                cpu_Oreg = NewReg, cpu_MAR = NewReg4, cpu_IR = NewIreg, cpu_ALU = NewAlu,
                cpu_PC = NewCtr, cpu_RAM = NewMem, cpu_BUS = 0\<rparr>"

section \<open>What the specification says, in its own words\<close>

text \<open>
  The control flags by the names of the specification's decode table, and the flag of
  Ctrl that carries each of them.
\<close>

datatype signal =
    A_in | A_out | B_in | Out_in | Addr_in | Inst_in | Inst_out
  | Alu_out | Subtract | Flag_in | Counter_out | Jump_load | Counter_enable
  | Mem_in | Mem_out

fun asserted :: "Ctrl \<Rightarrow> signal \<Rightarrow> bool" where
  "asserted c A_in = AI c"
| "asserted c A_out = AO c"
| "asserted c B_in = BI c"
| "asserted c Out_in = OI c"
| "asserted c Addr_in = MI c"
| "asserted c Inst_in = II c"
| "asserted c Inst_out = IO c"
| "asserted c Alu_out = EO c"
| "asserted c Subtract = SU c"
| "asserted c Flag_in = FI c"
| "asserted c Counter_out = CO c"
| "asserted c Jump_load = J c"
| "asserted c Counter_enable = CE c"
| "asserted c Mem_in = RI c"
| "asserted c Mem_out = RO c"

text \<open>The fetch phase of the table: steps 0 and 1, whatever the opcode.\<close>

definition fetch_row :: "nat \<Rightarrow> signal set" where
  "fetch_row step =
     (if step = 0 then {Counter_out, Addr_in}
      else if step = 1 then {Mem_out, Inst_in, Counter_enable}
      else {})"

text \<open>
  The execute phase of the table: one row per opcode (the high nibble), one column per
  step 2, 3, 4; a dash of the table is the empty set, and so is the row "any other
  value". The halt row asserts no signal: it sets the halt latch, which is stated apart.
\<close>

definition execute_row :: "nat \<Rightarrow> bool \<Rightarrow> bool \<Rightarrow> nat \<Rightarrow> signal set" where
  "execute_row opc carry zero step =
     (if opc = 0x0 then {}
      else if opc = 0x1 then
        (if step = 2 then {Inst_out, Addr_in} else if step = 3 then {Mem_out, A_in} else {})
      else if opc = 0x2 then
        (if step = 2 then {Inst_out, Addr_in} else if step = 3 then {Mem_out, B_in}
         else if step = 4 then {Alu_out, A_in, Flag_in} else {})
      else if opc = 0x3 then
        (if step = 2 then {Inst_out, Addr_in} else if step = 3 then {Mem_out, B_in}
         else if step = 4 then {Alu_out, A_in, Subtract, Flag_in} else {})
      else if opc = 0x4 then
        (if step = 2 then {Inst_out, Addr_in} else if step = 3 then {A_out, Mem_in} else {})
      else if opc = 0x5 then (if step = 2 then {Inst_out, A_in} else {})
      else if opc = 0x6 then (if step = 2 then {Inst_out, Jump_load} else {})
      else if opc = 0x7 then (if step = 2 \<and> carry then {Inst_out, Jump_load} else {})
      else if opc = 0x8 then (if step = 2 \<and> zero then {Inst_out, Jump_load} else {})
      else if opc = 0xE then (if step = 2 then {A_out, Out_in} else {})
      else {})"

definition decode_table :: "nat \<Rightarrow> nat \<Rightarrow> bool \<Rightarrow> bool \<Rightarrow> signal set" where
  "decode_table step opc carry zero =
     (if step < 2 then fetch_row step else execute_row opc carry zero step)"

text \<open>The halt row of the table: halt-latch := true at step 2 of opcode 0xF.\<close>

definition halt_row :: "nat \<Rightarrow> nat \<Rightarrow> bool" where
  "halt_row step opc = (step = 2 \<and> opc = 0xF)"

text \<open>
  The pending carry/zero pair of the arithmetic unit: for addition the carry is
  "unsigned sum > 255", for subtraction it is the borrow "A < B"; zero is "result = 0".
\<close>

definition pending_pair :: "bool \<Rightarrow> byte \<Rightarrow> byte \<Rightarrow> bool \<times> bool" where
  "pending_pair sub x y =
     (if sub then (uint x < uint y, x - y = 0) else (255 < uint x + uint y, x + y = 0))"

text \<open>The five flags that let a board write the bus, in the order of BBCpu.Exec.\<close>

definition output_enables :: "Ctrl \<Rightarrow> bool list" where
  "output_enables c = [AO c, EO c, RO c, CO c, IO c]"

section \<open>Stages of Ctrl.Exec\<close>

text \<open>
  Ctrl.Exec in three stages, for the proofs: the edge detection with the counter and
  resetFlags; the branch taken while CLR is set; and the switch (\<open>Ctrl_switch\<close> above).
\<close>

definition Ctrl_edge :: "bool option \<Rightarrow> Ctrl \<Rightarrow> Ctrl" where
  "Ctrl_edge clk c =
     (let c1 = c\<lparr>clkfe := (\<not> ptbool clk \<and> Ctrl_clkprev c)\<rparr>;
          c2 = c1\<lparr>Ctrl_clkprev := ptbool clk\<rparr>;
          c3 = (if clkfe c2 then c2\<lparr>Cnt := Cnt c2 + 1\<rparr> else c2);
          c4 = (if Cnt c3 = 5 then c3\<lparr>Cnt := 0\<rparr> else c3)
      in resetFlags c4)"

definition Ctrl_hold :: "Ctrl \<Rightarrow> Ctrl" where
  "Ctrl_hold c5 =
     (let c6 = c5\<lparr>Cnt := 0, HLT := False\<rparr>;
          c7 = (if clrrst c6 = 1 then c6\<lparr>CLR := False, clrrst := 0\<rparr> else c6);
          c8 = (if clrrst c7 > 0 then c7\<lparr>clrrst := clrrst c7 - 1\<rparr> else c7)
      in c8)"

text \<open>The micro instruction counter after the edge detection.\<close>

definition next_Cnt :: "bool option \<Rightarrow> Ctrl \<Rightarrow> byte" where
  "next_Cnt clk c =
     (if (if \<not> ptbool clk \<and> Ctrl_clkprev c then Cnt c + 1 else Cnt c) = 5 then 0
      else if \<not> ptbool clk \<and> Ctrl_clkprev c then Cnt c + 1 else Cnt c)"

section \<open>Concrete inputs\<close>

text \<open>Twenty bytes for the bulk load, four more than the memory holds.\<close>

definition twenty :: "byte list" where
  "twenty = [1, 2, 3, 4, 5, 6, 7, 8, 9, 10, 11, 12, 13, 14, 15, 16, 17, 18, 19, 20]"

text \<open>The control logic in step 1 with the clock high: the next falling edge starts step 2.\<close>

definition step1_high :: Ctrl where
  "step1_high = NewCtrl\<lparr>Cnt := 1, Ctrl_clkprev := True\<rparr>"

text \<open>The control logic as the halt instruction leaves it: step 2, halt latch set.\<close>

definition halted_ctrl :: Ctrl where
  "halted_ctrl = NewCtrl\<lparr>Cnt := 2, HLT := True\<rparr>"

section \<open>Basic facts\<close>

lemma ptbool_simps: "ptbool None = False" "ptbool (Some b) = b"
  by (simp_all add: ptbool_def)

lemma ptbyte_simps: "ptbyte None = 0" "ptbyte (Some v) = v"
  by (simp_all add: ptbyte_def)

lemma low_nibble_take_bit: "(x::byte) AND 0x0f = take_bit 4 x"
  by (simp add: take_bit_eq_mask mask_eq_exp_minus_1)

lemma inc_nibble: "unat (((x::byte) + 1) AND 0x0f) = (unat x + 1) mod 16"
proof -
  have "unat ((x + 1) AND 0x0f) = unat (x + 1) mod 16"
    by (simp add: low_nibble_take_bit take_bit_eq_mod unat_mod_distrib)
  also have "\<dots> = ((unat x + 1) mod 256) mod 16"
    by (simp add: unat_word_ariths)
  also have "\<dots> = (unat x + 1) mod 16"
    by (simp add: mod_mod_cancel)
  finally show ?thesis .
qed

lemma unat_byte_consts:
  "(unat (w::byte) = 0) = (w = 0)"
  "(unat w = Suc 0) = (w = 1)" "(unat w = 2) = (w = 2)" "(unat w = 3) = (w = 3)"
  "(unat w = 4) = (w = 4)" "(unat w = 5) = (w = 5)" "(unat w = 6) = (w = 6)"
  "(unat w = 7) = (w = 7)" "(unat w = 8) = (w = 8)" "(unat w = 14) = (w = 14)"
  "(unat w = 15) = (w = 15)"
  by (simp_all add: word_unat_eq_iff)

lemma unat_byte_lt2: "(unat (w::byte) < 2) = (w = 0 \<or> w = 1)"
proof -
  have "(unat w < 2) = (unat w = 0 \<or> unat w = Suc 0)" by arith
  then show ?thesis by (simp add: unat_byte_consts)
qed

section \<open>The arithmetic logic unit\<close>

lemma Alu_Exec_fields:
  "Alu_BUF (fst (Alu_Exec areg breg bus clk clr eo su fi a)) =
     (if ptbool su then ptbyte areg - ptbyte breg else ptbyte areg + ptbyte breg)"
  "(bufCF (fst (Alu_Exec areg breg bus clk clr eo su fi a)),
    bufZF (fst (Alu_Exec areg breg bus clk clr eo su fi a))) =
     pending_pair (ptbool su) (ptbyte areg) (ptbyte breg)"
  "Alu_clkprev (fst (Alu_Exec areg breg bus clk clr eo su fi a)) = ptbool clk"
  "(CF (fst (Alu_Exec areg breg bus clk clr eo su fi a)),
    ZF (fst (Alu_Exec areg breg bus clk clr eo su fi a))) =
     (if ptbool clr then (False, False)
      else if ptbool fi \<and> ptbool clk \<and> \<not> Alu_clkprev a then (bufCF a, bufZF a)
      else (CF a, ZF a))"
  by (simp_all add: Alu_Exec_def Let_def pending_pair_def word_less_def)

text \<open>
  Claim C2. Take any state \<open>a0\<close> of the ALU and two consecutive ticks. After the second
  tick the committed pair (CF, ZF) is: both false when clear is asserted; otherwise, when
  flag-input is asserted and the clock rose since the first tick, the pending pair the
  board held when the second tick began; otherwise the committed pair it had. That
  pending pair is the one the first tick computed from the operands and the
  subtract-select it was given; the operands given to the second tick, which the board
  reads only after the commit, play no part.
\<close>

theorem C2_flag_commit:
  "let a1 = fst (Alu_Exec areg0 breg0 bus0 clk0 clr0 eo0 su0 fi0 a0);
       a2 = fst (Alu_Exec areg breg bus clk clr eo su fi a1)
   in (CF a2, ZF a2) =
        (if ptbool clr then (False, False)
         else if ptbool fi \<and> ptbool clk \<and> \<not> Alu_clkprev a1 then (bufCF a1, bufZF a1)
         else (CF a1, ZF a1))
      \<and> Alu_clkprev a1 = ptbool clk0
      \<and> (bufCF a1, bufZF a1) = pending_pair (ptbool su0) (ptbyte areg0) (ptbyte breg0)"
  unfolding Let_def by (simp add: Alu_Exec_fields)

text \<open>
  At 200 + 100 computed on a low tick, then a rising edge with flag-input on which the
  operands have already changed to 44 and 100: the carry of 200 + 100 is committed.
\<close>

theorem C2_flag_commit_witness:
  "(CF (fst (Alu_Exec (Some 44) (Some 100) (Some 0) (Some True) (Some False) (Some True)
           (Some False) (Some True)
           (fst (Alu_Exec (Some 200) (Some 100) (Some 0) (Some False) (Some False) (Some True)
              (Some False) (Some True) NewAlu)))),
    ZF (fst (Alu_Exec (Some 44) (Some 100) (Some 0) (Some True) (Some False) (Some True)
           (Some False) (Some True)
           (fst (Alu_Exec (Some 200) (Some 100) (Some 0) (Some False) (Some False) (Some True)
              (Some False) (Some True) NewAlu))))) = (True, False)"
  using C2_flag_commit [of "Some 200" "Some 100" "Some 0" "Some False" "Some False" "Some True"
      "Some False" "Some True" NewAlu "Some 44" "Some 100" "Some 0" "Some True" "Some False"
      "Some True" "Some False" "Some True"]
  by (simp add: Let_def pending_pair_def ptbool_simps ptbyte_simps)

text \<open>
  Claim C3. On every tick, whatever the clock does, Alu.Exec leaves in BUF the sum of the
  two operands when subtract-select is false and their difference when it is true, both
  modulo 256; the pending carry is "unsigned sum > 255" for the addition and "A < B"
  (unsigned) for the subtraction; the pending zero is "BUF = 0".
\<close>

theorem C3_alu_recompute:
  "Alu_BUF (fst (Alu_Exec areg breg bus clk clr eo su fi a)) =
     (if ptbool su then ptbyte areg - ptbyte breg else ptbyte areg + ptbyte breg)
   \<and> uint (Alu_BUF (fst (Alu_Exec areg breg bus clk clr eo su fi a))) =
     (if ptbool su then (uint (ptbyte areg) - uint (ptbyte breg)) mod 256
      else (uint (ptbyte areg) + uint (ptbyte breg)) mod 256)
   \<and> bufCF (fst (Alu_Exec areg breg bus clk clr eo su fi a)) =
     (if ptbool su then uint (ptbyte areg) < uint (ptbyte breg)
      else 255 < uint (ptbyte areg) + uint (ptbyte breg))
   \<and> bufZF (fst (Alu_Exec areg breg bus clk clr eo su fi a)) =
     (Alu_BUF (fst (Alu_Exec areg breg bus clk clr eo su fi a)) = 0)"
  by (simp add: Alu_Exec_def Let_def uint_word_ariths word_less_def)

text \<open>3 - 5 with subtract-select: the result is 254 and the borrow is pending.\<close>

theorem C3_alu_recompute_witness:
  "Alu_BUF (fst (Alu_Exec (Some 3) (Some 5) None None None None (Some True) None NewAlu)) = 254
   \<and> bufCF (fst (Alu_Exec (Some 3) (Some 5) None None None None (Some True) None NewAlu))
   \<and> \<not> bufZF (fst (Alu_Exec (Some 3) (Some 5) None None None None (Some True) None NewAlu))"
  using C3_alu_recompute [of "Some 3" "Some 5" None None None None "Some True" None NewAlu]
  by (simp add: ptbool_simps ptbyte_simps)

section \<open>The register boards\<close>

text \<open>
  Claim C6, as amended. For each of the three register boards (Reg, Ireg, Reg4), after
  Exec the buffer is: 0 when clear is asserted, whatever the clock and enable-in do;
  otherwise, when enable-in is asserted and the clock is high while the stored previous
  level is low, the value read from the bus (for Reg and Ireg the bus value itself, for
  the 4-bit Reg4 its low 4 bits); otherwise the buffer it had. So without a rising edge
  enable-in has no effect on the buffer.
\<close>

theorem C6_register_capture:
  "Reg_BUF (fst (Reg_Exec bus clk clr ei eo r)) =
     (if ptbool clr then 0
      else if ptbool ei \<and> ptbool clk \<and> \<not> Reg_clkprev r then ptbyte bus
      else Reg_BUF r)
   \<and> Ireg_BUF (fst (Ireg_Exec bus clk clr ei eo ir)) =
     (if ptbool clr then 0
      else if ptbool ei \<and> ptbool clk \<and> \<not> Ireg_clkprev ir then ptbyte bus
      else Ireg_BUF ir)
   \<and> Reg4_BUF (Reg4_Exec bus clk clr ei mar) =
     (if ptbool clr then 0
      else if ptbool ei \<and> ptbool clk \<and> \<not> Reg4_clkprev mar then ptbyte bus AND 0x0f
      else Reg4_BUF mar)"
  by (simp add: Reg_Exec_def Ireg_Exec_def Reg4_Exec_def Let_def)

text \<open>A rising edge with enable-in and 0xAB on the bus, on each of the three boards.\<close>

theorem C6_register_capture_witness:
  "Reg_BUF (fst (Reg_Exec (Some 0xAB) (Some True) (Some False) (Some True) None NewReg)) = 0xAB
   \<and> Ireg_BUF (fst (Ireg_Exec (Some 0xAB) (Some True) (Some False) (Some True) None NewIreg)) = 0xAB
   \<and> Reg4_BUF (Reg4_Exec (Some 0xAB) (Some True) (Some False) (Some True) NewReg4) = 0x0B"
  using C6_register_capture [of "Some 0xAB" "Some True" "Some False" "Some True" None NewReg
      NewIreg NewReg4]
  by (simp add: ptbool_simps ptbyte_simps NewReg_def NewIreg_def NewReg4_def)

text \<open>
  The claim as stated, for every register board, fails on the address register: with
  0xAB on the bus, a rising edge and enable-in asserted, Reg4 holds 0x0B, not the bus
  value.
\<close>

theorem C6_counterexample:
  "Reg4_BUF (Reg4_Exec (Some 0xAB) (Some True) (Some False) (Some True) NewReg4) = 0x0B
   \<and> Reg4_BUF (Reg4_Exec (Some 0xAB) (Some True) (Some False) (Some True) NewReg4)
       \<noteq> ptbyte (Some 0xAB)"
  by (simp add: Reg4_Exec_def Let_def ptbool_simps ptbyte_simps NewReg4_def)

section \<open>The program counter\<close>

text \<open>
  Claim C7, as amended. After Ctr.Exec the counter is: 0 when clear is asserted;
  otherwise, on a rising edge with the jump signal asserted, the low 4 bits of the bus,
  whether count-enable is asserted or not (the load is written after the increment and
  wins); otherwise, on a rising edge with count-enable asserted, the counter plus one
  masked to 4 bits, which is the successor modulo 16; otherwise unchanged.
\<close>

theorem C7_counter_load_wins:
  "CNT (fst (Ctr_Exec bus clk clr co j ce c)) =
     (if ptbool clr then 0
      else if ptbool j \<and> ptbool clk \<and> \<not> Ctr_clkprev c then ptbyte bus AND 0x0f
      else if ptbool ce \<and> ptbool clk \<and> \<not> Ctr_clkprev c then (CNT c + 1) AND 0x0f
      else CNT c)
   \<and> unat ((CNT c + 1) AND 0x0f) = (unat (CNT c) + 1) mod 16"
  by (auto simp add: Ctr_Exec_def Let_def inc_nibble)

text \<open>
  Jump and count-enable together on a rising edge load the low nibble of 0xA5;
  count-enable alone takes 15 to 0.
\<close>

theorem C7_counter_load_wins_witness:
  "CNT (fst (Ctr_Exec (Some 0xA5) (Some True) (Some False) None (Some True) (Some True)
      \<lparr>CNT = 3, Ctr_clkprev = False, Ctr_clkre = False\<rparr>)) = 5
   \<and> CNT (fst (Ctr_Exec (Some 0xA5) (Some True) (Some False) None (Some False) (Some True)
      \<lparr>CNT = 15, Ctr_clkprev = False, Ctr_clkre = False\<rparr>)) = 0"
  using C7_counter_load_wins [of "Some 0xA5" "Some True" "Some False" None "Some True" "Some True"
      "\<lparr>CNT = 3, Ctr_clkprev = False, Ctr_clkre = False\<rparr>"]
    C7_counter_load_wins [of "Some 0xA5" "Some True" "Some False" None "Some False" "Some True"
      "\<lparr>CNT = 15, Ctr_clkprev = False, Ctr_clkre = False\<rparr>"]
  by (simp add: ptbool_simps ptbyte_simps)

text \<open>
  The claim as stated says nothing of clear: with clear asserted beside jump and
  count-enable on a rising edge, the counter ends at 0, not at the low 4 bits of the bus.
\<close>

theorem C7_counterexample:
  "CNT (fst (Ctr_Exec (Some 0x05) (Some True) (Some True) None (Some True) (Some True)
      \<lparr>CNT = 3, Ctr_clkprev = False, Ctr_clkre = False\<rparr>)) = 0
   \<and> CNT (fst (Ctr_Exec (Some 0x05) (Some True) (Some True) None (Some True) (Some True)
      \<lparr>CNT = 3, Ctr_clkprev = False, Ctr_clkre = False\<rparr>)) \<noteq> ptbyte (Some 0x05) AND 0x0f"
  by (simp add: Ctr_Exec_def Let_def ptbool_simps ptbyte_simps)

section \<open>The bulk load of the memory\<close>

lemma Write_loop_length: "length (Write_loop i n p mem) = length mem"
  by (induction i n p mem rule: Write_loop.induct)
     (simp add: Write_loop.simps [of i n p mem for i n p mem])

lemma Write_loop_nth:
  "k < length mem \<Longrightarrow>
   Write_loop i n p mem ! k = (if i \<le> k \<and> k < n then p ! k else mem ! k)"
proof (induction i n p mem rule: Write_loop.induct)
  case (1 i n p mem)
  show ?case
  proof (cases "i < n")
    case True
    with "1.prems" have step: "Write_loop (i + 1) n p (mem[i := p ! i]) ! k =
        (if i + 1 \<le> k \<and> k < n then p ! k else mem[i := p ! i] ! k)"
      by (intro "1.IH") simp_all
    have unfold: "Write_loop i n p mem = Write_loop (i + 1) n p (mem[i := p ! i])"
      using True by (subst Write_loop.simps) simp
    show ?thesis
    proof (cases "k = i")
      case True
      with \<open>i < n\<close> "1.prems" step show ?thesis by (simp add: unfold)
    next
      case False
      with "1.prems" step show ?thesis by (auto simp add: unfold)
    qed
  next
    case False
    then show ?thesis by (subst Write_loop.simps) auto
  qed
qed

text \<open>
  Claim C8. On a memory of 16 cells, Mem.Write p returns n = min (len p) 16, leaves in
  the cells below n the first n bytes of p and in the cells from n to 15 what they held,
  and returns an error exactly when p is longer than 16.
\<close>

theorem C8_bulk_load:
  "length (MEM m) = 16 \<Longrightarrow>
   (case Mem_Write p m of (m', n, err) \<Rightarrow>
      n = min (length p) 16
    \<and> length (MEM m') = 16
    \<and> (\<forall>k < 16. MEM m' ! k = (if k < n then p ! k else MEM m ! k))
    \<and> (err \<noteq> None) = (16 < length p)
    \<and> Mem_clkprev m' = Mem_clkprev m \<and> Mem_clkre m' = Mem_clkre m)"
  by (simp add: Mem_Write_def Let_def Write_loop_length Write_loop_nth)

text \<open>
  Twenty bytes into a fresh memory: sixteen written, the error returned; then five
  bytes: cells 5 to 15 keep their values, no error.
\<close>

theorem C8_bulk_load_witness:
  "length (MEM NewMem) = 16
   \<and> fst (snd (Mem_Write twenty NewMem)) = 16
   \<and> snd (snd (Mem_Write twenty NewMem)) = Some ''buffer larger than memory''
   \<and> MEM (fst (Mem_Write twenty NewMem)) = take 16 twenty
   \<and> fst (snd (Mem_Write [9, 8, 7, 6, 5] (fst (Mem_Write twenty NewMem)))) = 5
   \<and> snd (snd (Mem_Write [9, 8, 7, 6, 5] (fst (Mem_Write twenty NewMem)))) = None
   \<and> MEM (fst (Mem_Write [9, 8, 7, 6, 5] (fst (Mem_Write twenty NewMem)))) =
       [9, 8, 7, 6, 5] @ drop 5 (take 16 twenty)"
proof -
  have len: "length (MEM NewMem) = 16" by (simp add: NewMem_def)
  have run: "fst (snd (Mem_Write twenty NewMem)) = 16
   \<and> snd (snd (Mem_Write twenty NewMem)) = Some ''buffer larger than memory''
   \<and> MEM (fst (Mem_Write twenty NewMem)) = take 16 twenty
   \<and> fst (snd (Mem_Write [9, 8, 7, 6, 5] (fst (Mem_Write twenty NewMem)))) = 5
   \<and> snd (snd (Mem_Write [9, 8, 7, 6, 5] (fst (Mem_Write twenty NewMem)))) = None
   \<and> MEM (fst (Mem_Write [9, 8, 7, 6, 5] (fst (Mem_Write twenty NewMem)))) =
       [9, 8, 7, 6, 5] @ drop 5 (take 16 twenty)"
    by code_simp
  from C8_bulk_load [OF len, of twenty] len run show ?thesis by simp
qed

section \<open>The control logic board\<close>

lemma Ctrl_Exec_stages:
  "Ctrl_Exec inst clk cf zf c =
     (if CLR c then Ctrl_hold (Ctrl_edge clk c)
      else Ctrl_switch (ptbyte inst) (ptbool cf) (ptbool zf) (Ctrl_edge clk c))"
  by (simp add: Ctrl_Exec_def Ctrl_edge_def Ctrl_hold_def Let_def resetFlags_def)

lemma Ctrl_edge_fields:
  "Cnt (Ctrl_edge clk c) = next_Cnt clk c"
  "CLR (Ctrl_edge clk c) = CLR c"
  "HLT (Ctrl_edge clk c) = HLT c"
  "clrrst (Ctrl_edge clk c) = clrrst c"
  "Ctrl_clkprev (Ctrl_edge clk c) = ptbool clk"
  "clkfe (Ctrl_edge clk c) = (\<not> ptbool clk \<and> Ctrl_clkprev c)"
  by (simp_all add: Ctrl_edge_def Let_def resetFlags_def next_Cnt_def)

lemma Ctrl_edge_asserted: "asserted (Ctrl_edge clk c) s = False"
  by (cases s; simp add: Ctrl_edge_def Let_def resetFlags_def)

lemma Ctrl_hold_fields:
  "Cnt (Ctrl_hold c) = 0"
  "CLR (Ctrl_hold c) = (CLR c \<and> clrrst c \<noteq> 1)"
  "HLT (Ctrl_hold c) = False"
  "clrrst (Ctrl_hold c) =
     (if clrrst c = 1 then 0 else if 0 < clrrst c then clrrst c - 1 else clrrst c)"
  "Ctrl_clkprev (Ctrl_hold c) = Ctrl_clkprev c"
  "clkfe (Ctrl_hold c) = clkfe c"
  by (simp_all add: Ctrl_hold_def Let_def)

lemma Ctrl_hold_asserted: "asserted (Ctrl_hold c) s = asserted c s"
  by (cases s; simp add: Ctrl_hold_def Let_def)

lemma Ctrl_switch_fields:
  "Cnt (Ctrl_switch i f z c) = Cnt c"
  "CLR (Ctrl_switch i f z c) = CLR c"
  "HLT (Ctrl_switch i f z c) = (HLT c \<or> (Cnt c = 2 \<and> drop_bit 4 i = 0xf))"
  "clrrst (Ctrl_switch i f z c) = clrrst c"
  "Ctrl_clkprev (Ctrl_switch i f z c) = Ctrl_clkprev c"
  "clkfe (Ctrl_switch i f z c) = clkfe c"
  by (simp_all add: Ctrl_switch_def Let_def)

lemma Ctrl_switch_asserted:
  "asserted (Ctrl_switch i f z c) s =
     (asserted c s \<or> s \<in> decode_table (unat (Cnt c)) (unat (drop_bit 4 i)) f z)"
  by (cases s;
      simp add: Ctrl_switch_def Let_def decode_table_def fetch_row_def execute_row_def
        unat_byte_consts unat_byte_lt2)

lemma decode_table_one_writer:
  "length (filter (\<lambda>s. s \<in> decode_table step opc carry zero)
     [A_out, Alu_out, Mem_out, Counter_out, Inst_out]) \<le> 1"
  by (simp add: decode_table_def fetch_row_def execute_row_def)

lemma output_enables_asserted:
  "output_enables c = map (asserted c) [A_out, Alu_out, Mem_out, Counter_out, Inst_out]"
  by (simp add: output_enables_def)

text \<open>
  Claim C1. Let Ctrl.Exec run in a state where CLR is not set. The micro-step is the
  counter after the edge detection (\<open>next_Cnt\<close>). Then a control flag is asserted after
  Exec exactly when the decode table lists it for that micro-step, the high nibble of the
  instruction and the two status flags: the fetch rows at steps 0 and 1, the opcode's row
  at steps 2 to 4, nothing for an opcode outside the table (and nothing for a counter
  value above 4, which Exec never produces from one in 0..4). The halt latch is no control
  flag of the table: the halt row sets it, no row clears it.
\<close>

theorem C1_decode_table:
  "\<not> CLR c \<Longrightarrow>
   asserted (Ctrl_Exec inst clk cf zf c) s =
     (s \<in> decode_table (unat (Cnt (Ctrl_Exec inst clk cf zf c)))
            (unat (drop_bit 4 (ptbyte inst))) (ptbool cf) (ptbool zf))
   \<and> HLT (Ctrl_Exec inst clk cf zf c) =
     (HLT c \<or> halt_row (unat (Cnt (Ctrl_Exec inst clk cf zf c)))
                 (unat (drop_bit 4 (ptbyte inst))))
   \<and> Cnt (Ctrl_Exec inst clk cf zf c) = next_Cnt clk c"
  by (simp add: Ctrl_Exec_stages Ctrl_switch_asserted Ctrl_switch_fields Ctrl_edge_fields
      Ctrl_edge_asserted halt_row_def unat_byte_consts)

text \<open>
  From step 1 with the clock falling, so at step 2: jump-if-carry asserts inst-out and
  jump-load with the carry flag set and nothing without it; opcode 0x9 asserts nothing
  and leaves the halt latch clear; opcode 0xF sets the halt latch.
\<close>

theorem C1_decode_table_witness:
  "\<not> CLR step1_high
   \<and> Cnt (Ctrl_Exec (Some 0x7A) (Some False) (Some True) (Some False) step1_high) = 2
   \<and> (\<forall>s. asserted (Ctrl_Exec (Some 0x7A) (Some False) (Some True) (Some False) step1_high) s
          = (s \<in> {Inst_out, Jump_load}))
   \<and> (\<forall>s. \<not> asserted (Ctrl_Exec (Some 0x7A) (Some False) (Some False) (Some False) step1_high) s)
   \<and> (\<forall>s. \<not> asserted (Ctrl_Exec (Some 0x9A) (Some False) (Some True) (Some True) step1_high) s)
   \<and> \<not> HLT (Ctrl_Exec (Some 0x9A) (Some False) (Some True) (Some True) step1_high)
   \<and> HLT (Ctrl_Exec (Some 0xF0) (Some False) (Some False) (Some False) step1_high)"
proof -
  have n: "\<not> CLR step1_high"
    by (simp add: step1_high_def NewCtrl_def)
  have h: "\<not> HLT step1_high"
    by (simp add: step1_high_def NewCtrl_def)
  have cnt: "next_Cnt (Some False) step1_high = 2"
    by (simp add: next_Cnt_def step1_high_def NewCtrl_def ptbool_simps)
  note t = C1_decode_table [OF n, of _ "Some False"]
  have a: "asserted (Ctrl_Exec (Some 0x7A) (Some False) (Some True) (Some False) step1_high) s
      = (s \<in> {Inst_out, Jump_load})" for s
    using t [of "Some 0x7A" "Some True" "Some False" s]
    by (simp add: cnt decode_table_def execute_row_def ptbyte_simps ptbool_simps)
  have b: "\<not> asserted (Ctrl_Exec (Some 0x7A) (Some False) (Some False) (Some False) step1_high) s"
    for s
    using t [of "Some 0x7A" "Some False" "Some False" s]
    by (simp add: cnt decode_table_def execute_row_def ptbyte_simps ptbool_simps)
  have c: "\<not> asserted (Ctrl_Exec (Some 0x9A) (Some False) (Some True) (Some True) step1_high) s"
    for s
    using t [of "Some 0x9A" "Some True" "Some True" s]
    by (simp add: cnt decode_table_def execute_row_def ptbyte_simps ptbool_simps)
  have d: "\<not> HLT (Ctrl_Exec (Some 0x9A) (Some False) (Some True) (Some True) step1_high)"
    using t [of "Some 0x9A" "Some True" "Some True" A_in] h
    by (simp add: cnt halt_row_def ptbyte_simps ptbool_simps)
  have e: "HLT (Ctrl_Exec (Some 0xF0) (Some False) (Some False) (Some False) step1_high)"
    using t [of "Some 0xF0" "Some False" "Some False" A_in]
    by (simp add: cnt halt_row_def ptbyte_simps ptbool_simps)
  have f: "Cnt (Ctrl_Exec (Some 0x7A) (Some False) (Some True) (Some False) step1_high) = 2"
    using t [of "Some 0x7A" "Some True" "Some False" A_in] by (simp add: cnt)
  from n a b c d e f show ?thesis by blast
qed

lemma Ctrl_Reset_fields:
  "CLR (Ctrl_Reset c) = True" "clrrst (Ctrl_Reset c) = 2"
  by (simp_all add: Ctrl_Reset_def)

lemma Ctrl_Exec_held:
  "CLR c \<Longrightarrow> Cnt (Ctrl_Exec i k f z c) = 0"
  "CLR c \<Longrightarrow> HLT (Ctrl_Exec i k f z c) = False"
  "CLR c \<Longrightarrow> asserted (Ctrl_Exec i k f z c) s = False"
  "CLR c \<Longrightarrow> CLR (Ctrl_Exec i k f z c) = (clrrst c \<noteq> 1)"
  "CLR c \<Longrightarrow> clrrst (Ctrl_Exec i k f z c) =
     (if clrrst c = 1 then 0 else if 0 < clrrst c then clrrst c - 1 else clrrst c)"
  by (simp_all add: Ctrl_Exec_stages Ctrl_hold_fields Ctrl_hold_asserted Ctrl_edge_fields
      Ctrl_edge_asserted)

lemma Ctrl_Exec_fetch:
  "\<not> CLR c \<Longrightarrow> Cnt c = 0 \<Longrightarrow>
   asserted (Ctrl_Exec i k f z c) Counter_out \<or> asserted (Ctrl_Exec i k f z c) Mem_out"
  by (simp del: asserted.simps
      add: Ctrl_Exec_stages Ctrl_switch_asserted Ctrl_edge_fields Ctrl_edge_asserted
        next_Cnt_def decode_table_def fetch_row_def)

lemma Ctrl_Exec_CLR_stays_clear: "\<not> CLR c \<Longrightarrow> \<not> CLR (Ctrl_Exec i k f z c)"
  by (simp add: Ctrl_Exec_stages Ctrl_switch_fields Ctrl_edge_fields)

text \<open>
  Claim C4. After Ctrl.Reset, whatever the inputs of the next three calls of Ctrl.Exec:
  CLR is set when the first and when the second call begin and is cleared by the second
  call, so the third call begins with CLR clear; after the first and after the second call
  the micro instruction counter is 0, the halt latch is false and no control flag is
  asserted; the third call derives signals again (at least one flag is asserted).
\<close>

theorem C4_reset_two_ticks:
  "let c1 = Ctrl_Exec i1 k1 f1 z1 (Ctrl_Reset c);
       c2 = Ctrl_Exec i2 k2 f2 z2 c1;
       c3 = Ctrl_Exec i3 k3 f3 z3 c2
   in CLR (Ctrl_Reset c) \<and> CLR c1 \<and> \<not> CLR c2 \<and> \<not> CLR c3
    \<and> Cnt c1 = 0 \<and> \<not> HLT c1 \<and> (\<forall>s. \<not> asserted c1 s)
    \<and> Cnt c2 = 0 \<and> \<not> HLT c2 \<and> (\<forall>s. \<not> asserted c2 s)
    \<and> (\<exists>s. asserted c3 s)"
proof -
  define c1 where "c1 = Ctrl_Exec i1 k1 f1 z1 (Ctrl_Reset c)"
  define c2 where "c2 = Ctrl_Exec i2 k2 f2 z2 c1"
  define c3 where "c3 = Ctrl_Exec i3 k3 f3 z3 c2"
  have r: "CLR (Ctrl_Reset c)" "clrrst (Ctrl_Reset c) = 2"
    by (simp_all add: Ctrl_Reset_fields)
  have t1: "CLR c1" "clrrst c1 = 1" "Cnt c1 = 0" "\<not> HLT c1" "\<And>s. \<not> asserted c1 s"
    unfolding c1_def using r by (simp_all add: Ctrl_Exec_held)
  have t2: "\<not> CLR c2" "Cnt c2 = 0" "\<not> HLT c2" "\<And>s. \<not> asserted c2 s"
    unfolding c2_def using t1 by (simp_all add: Ctrl_Exec_held)
  have t3: "\<not> CLR c3" "\<exists>s. asserted c3 s"
    unfolding c3_def using t2 Ctrl_Exec_fetch [of c2 i3 k3 f3 z3]
    by (auto simp del: asserted.simps simp add: Ctrl_Exec_CLR_stays_clear)
  from r t1 t2 t3 show ?thesis
    unfolding Let_def c1_def c2_def c3_def by simp
qed

text \<open>A reset of the halted control logic: the first tick clears the halt latch.\<close>

theorem C4_reset_two_ticks_witness:
  "CLR (Ctrl_Exec (Some 0xF0) (Some False) None None (Ctrl_Reset halted_ctrl))
   \<and> \<not> HLT (Ctrl_Exec (Some 0xF0) (Some False) None None (Ctrl_Reset halted_ctrl))
   \<and> \<not> CLR (Ctrl_Exec (Some 0) (Some True) None None
          (Ctrl_Exec (Some 0xF0) (Some False) None None (Ctrl_Reset halted_ctrl)))
   \<and> (\<exists>s. asserted (Ctrl_Exec (Some 0) (Some False) None None
          (Ctrl_Exec (Some 0) (Some True) None None
            (Ctrl_Exec (Some 0xF0) (Some False) None None (Ctrl_Reset halted_ctrl)))) s)"
  using C4_reset_two_ticks [of "Some 0xF0" "Some False" None None halted_ctrl
      "Some 0" "Some True" None None "Some 0" "Some False" None None]
  by (simp add: Let_def)

text \<open>
  Claim C5. In every state and for all inputs, after Ctrl.Exec at most one of the five
  flags that let a board write the bus (AO, EO, RO, CO, IO) is set. The B register and the
  output register are wired with a nil EO pointer and never write the bus.
\<close>

theorem C5_single_writer:
  "length (filter id (output_enables (Ctrl_Exec inst clk cf zf c))) \<le> 1"
proof -
  have "output_enables (Ctrl_Exec inst clk cf zf c) =
      map (\<lambda>s. \<not> CLR c \<and> s \<in> decode_table (unat (next_Cnt clk c))
            (unat (drop_bit 4 (ptbyte inst))) (ptbool cf) (ptbool zf))
        [A_out, Alu_out, Mem_out, Counter_out, Inst_out]"
    by (simp del: asserted.simps
        add: output_enables_asserted Ctrl_Exec_stages Ctrl_hold_asserted
          Ctrl_edge_asserted Ctrl_switch_asserted Ctrl_edge_fields)
  then show ?thesis
    by (simp add: decode_table_def fetch_row_def execute_row_def)
qed


text \<open>Step 4 of an addition: only the ALU writes the bus.\<close>

theorem C5_single_writer_witness:
  "output_enables (Ctrl_Exec (Some 0x2E) (Some True) None None (NewCtrl\<lparr>Cnt := 4\<rparr>))
     = [False, True, False, False, False]
   \<and> length (filter id
       (output_enables (Ctrl_Exec (Some 0x2E) (Some True) None None (NewCtrl\<lparr>Cnt := 4\<rparr>)))) \<le> 1"
  using C5_single_writer [of "Some 0x2E" "Some True" None None "NewCtrl\<lparr>Cnt := 4\<rparr>"]
  by (simp add: output_enables_def Ctrl_Exec_def Ctrl_switch_def resetFlags_def NewCtrl_def
      Let_def ptbool_simps ptbyte_simps)

end
